theory Spec2Isabelle
  imports Complex_Main
begin

section \<open>Values of the data frame\<close>

text \<open>
  A numeric cell of the fundamentals table is a Python float: not-a-number (the
  table's "absent"), plus or minus infinity, or a finite number. Finite numbers are
  taken as reals with exact arithmetic: rounding, overflow and underflow of doubles
  are outside this development. Every comparison with \<open>NaN\<close> is false, as in IEEE.
  A statement below that names a product, quotient or root means the operation of
  this section; where rounding decides a comparison, or a result underflows to zero,
  the doubles of the program can differ from it.
\<close>

datatype pyfloat = NaN | PInf | NInf | Fin real

text \<open>\<open>pd.isna\<close> and \<open>pd.notna\<close> on a float.\<close>

definition isna :: "pyfloat \<Rightarrow> bool" where
  "isna x = (x = NaN)"

definition notna :: "pyfloat \<Rightarrow> bool" where
  "notna x = (x \<noteq> NaN)"

fun pf_less :: "pyfloat \<Rightarrow> pyfloat \<Rightarrow> bool" where
  "pf_less NaN y = False"
| "pf_less x NaN = False"
| "pf_less PInf y = False"
| "pf_less NInf NInf = False"
| "pf_less NInf y = True"
| "pf_less (Fin a) PInf = True"
| "pf_less (Fin a) NInf = False"
| "pf_less (Fin a) (Fin b) = (a < b)"

fun pf_le :: "pyfloat \<Rightarrow> pyfloat \<Rightarrow> bool" where
  "pf_le NaN y = False"
| "pf_le x NaN = False"
| "pf_le NInf y = True"
| "pf_le PInf PInf = True"
| "pf_le PInf y = False"
| "pf_le (Fin a) PInf = True"
| "pf_le (Fin a) NInf = False"
| "pf_le (Fin a) (Fin b) = (a \<le> b)"

definition pf_gt :: "pyfloat \<Rightarrow> pyfloat \<Rightarrow> bool" where
  "pf_gt x y = pf_less y x"

definition pf_ge :: "pyfloat \<Rightarrow> pyfloat \<Rightarrow> bool" where
  "pf_ge x y = pf_le y x"

text \<open>
  The sign of a value that is not \<open>NaN\<close>, and the infinity of a sign; a zero sign
  gives \<open>NaN\<close> (infinity times zero).
\<close>

fun pf_sign :: "pyfloat \<Rightarrow> int" where
  "pf_sign NaN = 0"
| "pf_sign PInf = 1"
| "pf_sign NInf = -1"
| "pf_sign (Fin a) = (if 0 < a then 1 else if a < 0 then -1 else 0)"

definition inf_of_sign :: "int \<Rightarrow> pyfloat" where
  "inf_of_sign s = (if 0 < s then PInf else if s < 0 then NInf else NaN)"

fun pf_mult :: "pyfloat \<Rightarrow> pyfloat \<Rightarrow> pyfloat" where
  "pf_mult NaN y = NaN"
| "pf_mult x NaN = NaN"
| "pf_mult (Fin a) (Fin b) = Fin (a * b)"
| "pf_mult x y = inf_of_sign (pf_sign x * pf_sign y)"

fun pf_add :: "pyfloat \<Rightarrow> pyfloat \<Rightarrow> pyfloat" where
  "pf_add NaN y = NaN"
| "pf_add x NaN = NaN"
| "pf_add (Fin a) (Fin b) = Fin (a + b)"
| "pf_add PInf NInf = NaN"
| "pf_add NInf PInf = NaN"
| "pf_add (Fin a) y = y"
| "pf_add x y = x"

fun pf_neg :: "pyfloat \<Rightarrow> pyfloat" where
  "pf_neg NaN = NaN"
| "pf_neg PInf = NInf"
| "pf_neg NInf = PInf"
| "pf_neg (Fin a) = Fin (- a)"

definition pf_sub :: "pyfloat \<Rightarrow> pyfloat \<Rightarrow> pyfloat" where
  "pf_sub x y = pf_add x (pf_neg y)"

text \<open>
  Division as numpy does it: a finite value over an infinity is zero, an infinity over
  an infinity is \<open>NaN\<close>, and a zero divisor (taken as \<open>+0.0\<close>) gives an infinity of the
  dividend's sign, or \<open>NaN\<close> for \<open>0/0\<close>.
\<close>

fun pf_div :: "pyfloat \<Rightarrow> pyfloat \<Rightarrow> pyfloat" where
  "pf_div NaN y = NaN"
| "pf_div x NaN = NaN"
| "pf_div (Fin a) (Fin b) = (if b = 0 then inf_of_sign (pf_sign (Fin a)) else Fin (a / b))"
| "pf_div (Fin a) y = Fin 0"
| "pf_div x (Fin b) = inf_of_sign (pf_sign x * (if b < 0 then -1 else 1))"
| "pf_div x y = NaN"

fun pf_sqrt :: "pyfloat \<Rightarrow> pyfloat" where
  "pf_sqrt NaN = NaN"
| "pf_sqrt PInf = PInf"
| "pf_sqrt NInf = NaN"
| "pf_sqrt (Fin a) = (if a < 0 then NaN else Fin (sqrt a))"

text \<open>
  A text cell (ticker, company, sector, currency) holds a string, or is missing: the
  float \<open>nan\<close> or Python's \<open>None\<close>. Strings are ASCII texts.
\<close>

datatype pytext = Text string | TNaN | TNone

definition text_isna :: "pytext \<Rightarrow> bool" where
  "text_isna c = (case c of Text s \<Rightarrow> False | _ \<Rightarrow> True)"

section \<open>Rows and thresholds\<close>

text \<open>
  One row of the fundamentals frame, with the columns \<open>_fetch_snapshot\<close> produces, and
  the row after \<open>apply_valuation\<close> has added its columns.
\<close>

record snapshot =
  ticker :: pytext
  company :: pytext
  sector :: pytext
  price :: pyfloat
  market_cap :: pyfloat
  currency :: pytext
  trailing_pe :: pyfloat
  forward_pe :: pyfloat
  trailing_eps :: pyfloat
  forward_eps :: pyfloat
  earnings_growth :: pyfloat
  peg_ratio :: pyfloat
  book_value_per_share :: pyfloat
  target_mean_price :: pyfloat

record valued_row = snapshot +
  graham_value :: pyfloat
  peg_ratio_source :: string
  sector_median_pe :: pyfloat
  pe_median_used :: pyfloat
  fair_value :: pyfloat
  fair_value_source :: string
  margin_of_safety :: pyfloat
  peg_pass :: string
  pe_vs_sector_pass :: string
  margin_of_safety_pass :: string
  valuation_hunter :: string
  valuation :: string
  pct_diff :: pyfloat

record ValuationThresholds =
  undervalued :: pyfloat
  overvalued :: pyfloat
  peg_max :: pyfloat
  pe_sector_max_mult :: pyfloat
  margin_of_safety_min :: pyfloat

section \<open>Cohort statistics\<close>

text \<open>
  \<open>Series.median()\<close> skips \<open>NaN\<close>; the median of no value is \<open>NaN\<close>, of an even number
  of values the mean of the two middle ones.
\<close>

fun pf_insert :: "pyfloat \<Rightarrow> pyfloat list \<Rightarrow> pyfloat list" where
  "pf_insert x [] = [x]"
| "pf_insert x (y # ys) = (if pf_le x y then x # y # ys else y # pf_insert x ys)"

definition pf_sort :: "pyfloat list \<Rightarrow> pyfloat list" where
  "pf_sort xs = foldr pf_insert xs []"

definition median :: "pyfloat list \<Rightarrow> pyfloat" where
  "median xs =
     (let ys = pf_sort (filter notna xs); n = length ys
      in if n = 0 then NaN
         else if odd n then ys ! (n div 2)
         else pf_div (pf_add (ys ! (n div 2 - 1)) (ys ! (n div 2))) (Fin 2))"

text \<open>
  \<open>df.groupby("sector")[col].median()\<close>: a series indexed by the sectors that occur
  in the frame (a missing sector forms no group). \<open>Series.get\<close> gives \<open>None\<close> for a
  key that is not in the index.
\<close>

definition groupby_median ::
    "('a snapshot_scheme \<Rightarrow> pyfloat) \<Rightarrow> 'a snapshot_scheme list \<Rightarrow> (string \<rightharpoonup> pyfloat)" where
  "groupby_median col df =
     (\<lambda>k. let grp = filter (\<lambda>r. sector r = Text k) df
          in if grp = [] then None else Some (median (map col grp)))"

definition series_get :: "(string \<rightharpoonup> pyfloat) \<Rightarrow> pytext \<Rightarrow> pyfloat option" where
  "series_get s key = (case key of Text k \<Rightarrow> s k | _ \<Rightarrow> None)"

text \<open>\<open>df["sector"].map(series)\<close> for one cell, and \<open>fillna\<close> for one cell.\<close>

definition series_map :: "(string \<rightharpoonup> pyfloat) \<Rightarrow> pytext \<Rightarrow> pyfloat" where
  "series_map s key = (case series_get s key of None \<Rightarrow> NaN | Some v \<Rightarrow> v)"

definition fillna :: "pyfloat \<Rightarrow> pyfloat \<Rightarrow> pyfloat" where
  "fillna x d = (if isna x then d else x)"

section \<open>Metric derivation\<close>

definition select_fair_value ::
    "'a valued_row_scheme \<Rightarrow> (string \<rightharpoonup> pyfloat) \<Rightarrow> pyfloat \<Rightarrow> (string \<rightharpoonup> pyfloat) \<Rightarrow> pyfloat
      \<Rightarrow> pyfloat \<times> string" where
  "select_fair_value row sector_medians_pe overall_median_pe sector_medians_fpe overall_median_fpe =
     (if notna (graham_value row) \<and> pf_gt (graham_value row) (Fin 0)
      then (graham_value row, ''graham_value'')
      else if notna (target_mean_price row) \<and> pf_gt (target_mean_price row) (Fin 0)
      then (target_mean_price row, ''target_mean_price'')
      else
        let pe = (case series_get sector_medians_pe (sector row) of
                    None \<Rightarrow> overall_median_pe
                  | Some v \<Rightarrow> if isna v then overall_median_pe else v)
        in if notna (trailing_eps row) \<and> pf_gt (trailing_eps row) (Fin 0)
              \<and> notna pe \<and> pf_gt pe (Fin 0)
           then (pf_mult (trailing_eps row) pe, ''sector_median_trailing_pe'')
           else
             let fpe = (case series_get sector_medians_fpe (sector row) of
                          None \<Rightarrow> overall_median_fpe
                        | Some v \<Rightarrow> if isna v then overall_median_fpe else v)
             in if notna (forward_eps row) \<and> pf_gt (forward_eps row) (Fin 0)
                   \<and> notna fpe \<and> pf_gt fpe (Fin 0)
                then (pf_mult (forward_eps row) fpe, ''sector_median_forward_pe'')
                else (NaN, ''missing''))"

definition compute_graham_value :: "'a snapshot_scheme \<Rightarrow> pyfloat" where
  "compute_graham_value row =
     (let eps = trailing_eps row; book_value = book_value_per_share row
      in if notna eps \<and> notna book_value \<and> pf_gt eps (Fin 0) \<and> pf_gt book_value (Fin 0)
         then pf_sqrt (pf_mult (pf_mult (Fin 22.5) eps) book_value)
         else NaN)"

definition compute_peg_ratio :: "'a snapshot_scheme \<Rightarrow> pyfloat \<times> string" where
  "compute_peg_ratio row =
     (if notna (peg_ratio row) \<and> pf_gt (peg_ratio row) (Fin 0)
      then (peg_ratio row, ''reported'')
      else
        let growth_pct = (if pf_le (earnings_growth row) (Fin 1)
                          then pf_mult (earnings_growth row) (Fin 100)
                          else earnings_growth row)
        in if notna (trailing_pe row) \<and> pf_gt (trailing_pe row) (Fin 0)
              \<and> notna (earnings_growth row) \<and> pf_gt (earnings_growth row) (Fin 0)
              \<and> pf_gt growth_pct (Fin 0)
           then (pf_div (trailing_pe row) growth_pct, ''derived'')
           else (NaN, ''missing''))"

definition pass_fail_unknown :: "bool \<Rightarrow> bool \<Rightarrow> string" where
  "pass_fail_unknown valid condition =
     (if \<not> valid then ''unknown'' else if condition then ''pass'' else ''fail'')"

section \<open>Verdicts\<close>

text \<open>The two row classifiers that \<open>apply_valuation\<close> defines locally.\<close>

definition hunter_classify :: "'a valued_row_scheme \<Rightarrow> string" where
  "hunter_classify row =
     (let checks = [peg_pass row, pe_vs_sector_pass row, margin_of_safety_pass row]
      in if list_ex (\<lambda>v. v = ''unknown'') checks then ''unknown''
         else if list_all (\<lambda>v. v = ''pass'') checks then ''pass''
         else ''fail'')"

definition classify :: "ValuationThresholds \<Rightarrow> 'a valued_row_scheme \<Rightarrow> string" where
  "classify thresholds row =
     (if isna (price row) \<or> isna (fair_value row) \<or> pf_le (fair_value row) (Fin 0)
      then ''unknown''
      else if pf_le (price row) (pf_mult (fair_value row) (undervalued thresholds))
      then ''undervalued''
      else if pf_ge (price row) (pf_mult (fair_value row) (overvalued thresholds))
      then ''overvalued''
      else ''fair'')"

section \<open>The valuation of a frame\<close>

text \<open>
  A snapshot with the new columns not yet assigned. Each column is assigned below
  before anything reads it.
\<close>

definition new_columns :: "snapshot \<Rightarrow> valued_row" where
  "new_columns row =
     snapshot.extend row (valued_row.fields NaN [] NaN NaN NaN [] NaN [] [] [] [] [] NaN)"

text \<open>
  Every column assignment of \<open>apply_valuation\<close> computes a row's cell from the cells
  of the same row and from the cohort statistics, which are computed once from the
  incoming frame. Each assignment is given here for one row, in the order of the
  source; \<open>apply_valuation\<close> maps them over the frame one after the other.
\<close>

text \<open>The first loop over the rows, and the three columns it fills.\<close>

definition assign_metrics :: "valued_row \<Rightarrow> valued_row" where
  "assign_metrics r =
     r\<lparr>graham_value := compute_graham_value r,
       peg_ratio := fst (compute_peg_ratio r),
       peg_ratio_source := snd (compute_peg_ratio r)\<rparr>"

definition assign_sector_median_pe :: "(string \<rightharpoonup> pyfloat) \<Rightarrow> valued_row \<Rightarrow> valued_row" where
  "assign_sector_median_pe sector_medians_pe r =
     r\<lparr>sector_median_pe := series_map sector_medians_pe (sector r)\<rparr>"

definition assign_pe_median_used :: "pyfloat \<Rightarrow> valued_row \<Rightarrow> valued_row" where
  "assign_pe_median_used overall_median_pe r =
     r\<lparr>pe_median_used := fillna (sector_median_pe r) overall_median_pe\<rparr>"

text \<open>The second loop over the rows.\<close>

definition assign_fair_value ::
    "(string \<rightharpoonup> pyfloat) \<Rightarrow> pyfloat \<Rightarrow> (string \<rightharpoonup> pyfloat) \<Rightarrow> pyfloat \<Rightarrow> valued_row \<Rightarrow> valued_row" where
  "assign_fair_value sector_medians_pe overall_median_pe sector_medians_fpe overall_median_fpe r =
     r\<lparr>fair_value := fst (select_fair_value r sector_medians_pe overall_median_pe
                             sector_medians_fpe overall_median_fpe),
       fair_value_source := snd (select_fair_value r sector_medians_pe overall_median_pe
                                    sector_medians_fpe overall_median_fpe)\<rparr>"

text \<open>
  \<open>np.where\<close> computes the quotient for every row and keeps it where
  \<open>graham_value > 0\<close>.
\<close>

definition assign_margin_of_safety :: "valued_row \<Rightarrow> valued_row" where
  "assign_margin_of_safety r =
     r\<lparr>margin_of_safety :=
         (if pf_gt (graham_value r) (Fin 0)
          then pf_div (pf_sub (graham_value r) (price r)) (graham_value r)
          else NaN)\<rparr>"

definition assign_peg_pass :: "ValuationThresholds \<Rightarrow> valued_row \<Rightarrow> valued_row" where
  "assign_peg_pass thresholds r =
     (let peg_valid = (notna (peg_ratio r) \<and> pf_gt (peg_ratio r) (Fin 0))
      in r\<lparr>peg_pass :=
             pass_fail_unknown peg_valid (pf_less (peg_ratio r) (peg_max thresholds))\<rparr>)"

definition assign_pe_vs_sector_pass :: "ValuationThresholds \<Rightarrow> valued_row \<Rightarrow> valued_row" where
  "assign_pe_vs_sector_pass thresholds r =
     (let pe_valid = (notna (trailing_pe r) \<and> notna (pe_median_used r))
      in r\<lparr>pe_vs_sector_pass :=
             pass_fail_unknown pe_valid
               (pf_le (trailing_pe r)
                  (pf_mult (pe_median_used r) (pe_sector_max_mult thresholds)))\<rparr>)"

definition assign_margin_of_safety_pass :: "ValuationThresholds \<Rightarrow> valued_row \<Rightarrow> valued_row" where
  "assign_margin_of_safety_pass thresholds r =
     (let mos_valid = notna (margin_of_safety r)
      in r\<lparr>margin_of_safety_pass :=
             pass_fail_unknown mos_valid
               (pf_ge (margin_of_safety r) (margin_of_safety_min thresholds))\<rparr>)"

definition assign_valuation_hunter :: "valued_row \<Rightarrow> valued_row" where
  "assign_valuation_hunter r = r\<lparr>valuation_hunter := hunter_classify r\<rparr>"

definition assign_valuation :: "ValuationThresholds \<Rightarrow> valued_row \<Rightarrow> valued_row" where
  "assign_valuation thresholds r = r\<lparr>valuation := classify thresholds r\<rparr>"

definition assign_pct_diff :: "valued_row \<Rightarrow> valued_row" where
  "assign_pct_diff r = r\<lparr>pct_diff := pf_div (pf_sub (price r) (fair_value r)) (fair_value r)\<rparr>"

definition apply_valuation :: "snapshot list \<Rightarrow> ValuationThresholds \<Rightarrow> valued_row list" where
  "apply_valuation df thresholds =
     (let sector_medians_pe = groupby_median trailing_pe df;
          overall_median_pe = median (map trailing_pe df);
          sector_medians_fpe = groupby_median forward_pe df;
          overall_median_fpe = median (map forward_pe df);
          df = map new_columns df;
          df = map assign_metrics df;
          df = map (assign_sector_median_pe sector_medians_pe) df;
          df = map (assign_pe_median_used overall_median_pe) df;
          df = map (assign_fair_value sector_medians_pe overall_median_pe
                      sector_medians_fpe overall_median_fpe) df;
          df = map assign_margin_of_safety df;
          df = map (assign_peg_pass thresholds) df;
          df = map (assign_pe_vs_sector_pass thresholds) df;
          df = map (assign_margin_of_safety_pass thresholds) df;
          df = map assign_valuation_hunter df;
          df = map (assign_valuation thresholds) df;
          df = map assign_pct_diff df
      in df)"

text \<open>The assignments composed: the valued row of one snapshot, given the statistics.\<close>

definition valued ::
    "ValuationThresholds \<Rightarrow> (string \<rightharpoonup> pyfloat) \<Rightarrow> pyfloat \<Rightarrow> (string \<rightharpoonup> pyfloat) \<Rightarrow> pyfloat
      \<Rightarrow> snapshot \<Rightarrow> valued_row" where
  "valued thresholds sector_medians_pe overall_median_pe sector_medians_fpe overall_median_fpe row =
     assign_pct_diff (assign_valuation thresholds (assign_valuation_hunter
       (assign_margin_of_safety_pass thresholds (assign_pe_vs_sector_pass thresholds
         (assign_peg_pass thresholds (assign_margin_of_safety
           (assign_fair_value sector_medians_pe overall_median_pe
              sector_medians_fpe overall_median_fpe
             (assign_pe_median_used overall_median_pe
               (assign_sector_median_pe sector_medians_pe
                 (assign_metrics (new_columns row)))))))))))"

section \<open>The normalizer\<close>

text \<open>
  Python's \<open>str.strip\<close>, \<open>str.upper\<close> and \<open>str.replace(".", "-")\<close> on ASCII text.
  The whitespace of \<open>strip\<close> is the characters 9 to 13 and 28 to 32. A character
  above 127 is neither trimmed nor changed here, which is not what Python does with
  the code points it could stand for; tickers are ASCII.
\<close>

definition py_isspace :: "char \<Rightarrow> bool" where
  "py_isspace c = (let n = (of_char c :: nat) in (9 \<le> n \<and> n \<le> 13) \<or> (28 \<le> n \<and> n \<le> 32))"

definition strip :: "string \<Rightarrow> string" where
  "strip s = rev (dropWhile py_isspace (rev (dropWhile py_isspace s)))"

definition upper_char :: "char \<Rightarrow> char" where
  "upper_char c =
     (let n = (of_char c :: nat) in if 97 \<le> n \<and> n \<le> 122 then char_of (n - 32) else c)"

definition upper :: "string \<Rightarrow> string" where
  "upper s = map upper_char s"

definition replace_dot :: "string \<Rightarrow> string" where
  "replace_dot s = map (\<lambda>c. if c = CHR ''.'' then CHR ''-'' else c) s"

text \<open>
  \<open>Series.astype(str)\<close> on a column of Python objects calls \<open>str\<close> on every cell,
  the missing ones too.
\<close>

definition astype_str :: "pytext \<Rightarrow> string" where
  "astype_str c = (case c of Text s \<Rightarrow> s | TNaN \<Rightarrow> ''nan'' | TNone \<Rightarrow> ''None'')"

definition normalize_ticker :: "pytext \<Rightarrow> pytext" where
  "normalize_ticker c = Text (replace_dot (upper (strip (astype_str c))))"

text \<open>\<open>drop_duplicates(subset=["ticker"], keep="first")\<close>.\<close>

fun keep_first :: "pytext list \<Rightarrow> snapshot list \<Rightarrow> snapshot list" where
  "keep_first seen [] = []"
| "keep_first seen (r # rs) =
     (if ticker r \<in> set seen then keep_first seen rs
      else r # keep_first (ticker r # seen) rs)"

definition drop_duplicates :: "snapshot list \<Rightarrow> snapshot list" where
  "drop_duplicates df = keep_first [] df"

text \<open>
  The schema coerces the text columns to \<open>str\<close> and the numeric columns to \<open>float\<close>,
  every column nullable. The cells of a \<open>snapshot\<close> have these types already, and the
  coercion keeps a missing cell missing, so validation returns the frame as it is. A
  frame with cells of other types (a text in a numeric column) is not a
  \<open>snapshot list\<close>.
\<close>

definition schema_validate :: "snapshot list \<Rightarrow> snapshot list" where
  "schema_validate df = df"

definition replace_inf :: "pyfloat \<Rightarrow> pyfloat" where
  "replace_inf x = (if x = PInf \<or> x = NInf then NaN else x)"

definition replace_inf_row :: "snapshot \<Rightarrow> snapshot" where
  "replace_inf_row r =
     r\<lparr>price := replace_inf (price r), market_cap := replace_inf (market_cap r),
       trailing_pe := replace_inf (trailing_pe r), forward_pe := replace_inf (forward_pe r),
       trailing_eps := replace_inf (trailing_eps r), forward_eps := replace_inf (forward_eps r),
       earnings_growth := replace_inf (earnings_growth r), peg_ratio := replace_inf (peg_ratio r),
       book_value_per_share := replace_inf (book_value_per_share r),
       target_mean_price := replace_inf (target_mean_price r)\<rparr>"

definition sector_unknown :: "pytext \<Rightarrow> pytext" where
  "sector_unknown c =
     (let c = (if c = Text '''' then Text ''Unknown'' else c)
      in if text_isna c then Text ''Unknown'' else c)"

definition cleanse_fundamentals :: "snapshot list \<Rightarrow> snapshot list" where
  "cleanse_fundamentals df =
     (let df = map (\<lambda>r. r\<lparr>ticker := normalize_ticker (ticker r)\<rparr>) df;
          df = filter (\<lambda>r. \<not> text_isna (ticker r) \<and> ticker r \<noteq> Text '''') df;
          df = drop_duplicates df;
          df = schema_validate df;
          df = map replace_inf_row df;
          df = map (\<lambda>r. if pf_le (price r) (Fin 0) then r\<lparr>price := NaN\<rparr> else r) df;
          df = map (\<lambda>r. if pf_le (market_cap r) (Fin 0) then r\<lparr>market_cap := NaN\<rparr> else r) df;
          df = map (\<lambda>r. r\<lparr>sector := sector_unknown (sector r)\<rparr>) df
      in df)"

text \<open>
  The passes of the normalizer on one row: the ticker pass before the rows are
  filtered, and the passes on the cells after the duplicates are dropped.
\<close>

definition normalize_row :: "snapshot \<Rightarrow> snapshot" where
  "normalize_row r = r\<lparr>ticker := normalize_ticker (ticker r)\<rparr>"

definition sanitize_row :: "snapshot \<Rightarrow> snapshot" where
  "sanitize_row r =
     (let r = replace_inf_row r;
          r = (if pf_le (price r) (Fin 0) then r\<lparr>price := NaN\<rparr> else r);
          r = (if pf_le (market_cap r) (Fin 0) then r\<lparr>market_cap := NaN\<rparr> else r)
      in r\<lparr>sector := sector_unknown (sector r)\<rparr>)"

text \<open>What the passes make of a price or market capitalisation cell.\<close>

definition positive_or_nan :: "pyfloat \<Rightarrow> pyfloat" where
  "positive_or_nan x = (if pf_le (replace_inf x) (Fin 0) then NaN else replace_inf x)"

section \<open>Frames with and without columns\<close>






section \<open>The ticker steps and the text conversion\<close>





section \<open>Sample data\<close>

text \<open>
  A row as the fetcher returns it, and the thresholds that \<open>load_settings\<close> uses when
  the environment sets none.
\<close>

definition sample_row :: snapshot where
  "sample_row =
     \<lparr>ticker = Text ''BRK.B'', company = Text ''Berkshire Hathaway'',
      sector = Text ''Financial Services'', price = Fin 90, market_cap = Fin 1000,
      currency = Text ''USD'', trailing_pe = Fin 20, forward_pe = Fin 18,
      trailing_eps = Fin 5, forward_eps = Fin 6, earnings_growth = Fin 0.15,
      peg_ratio = NaN, book_value_per_share = Fin 20, target_mean_price = Fin 100\<rparr>"


section \<open>The valued row, column by column\<close>

text \<open>
  The frame that \<open>apply_valuation\<close> returns is the map of \<open>valued\<close> over the incoming
  frame, and every column of a valued row has a closed form: an assignment changes
  one column (the first one three) and leaves the others.
\<close>

lemma apply_valuation_valued:
  "apply_valuation df th =
     map (valued th (groupby_median trailing_pe df) (median (map trailing_pe df))
            (groupby_median forward_pe df) (median (map forward_pe df))) df"
  by (simp add: apply_valuation_def Let_def valued_def)

lemma new_columns_fields:
  "ticker (new_columns row) = ticker row"
  "sector (new_columns row) = sector row"
  "price (new_columns row) = price row"
  "trailing_pe (new_columns row) = trailing_pe row"
  "forward_pe (new_columns row) = forward_pe row"
  "trailing_eps (new_columns row) = trailing_eps row"
  "forward_eps (new_columns row) = forward_eps row"
  "earnings_growth (new_columns row) = earnings_growth row"
  "peg_ratio (new_columns row) = peg_ratio row"
  "book_value_per_share (new_columns row) = book_value_per_share row"
  "target_mean_price (new_columns row) = target_mean_price row"
  by (simp_all add: new_columns_def snapshot.defs valued_row.defs)

lemma compute_new_columns:
  "compute_graham_value (new_columns row) = compute_graham_value row"
  "compute_peg_ratio (new_columns row) = compute_peg_ratio row"
  by (simp_all add: compute_graham_value_def compute_peg_ratio_def new_columns_fields Let_def)

lemma valued_fields:
  fixes th a b c d row
  defines "v \<equiv> valued th a b c d row"
  shows "price v = price row"
    and "sector v = sector row"
    and "graham_value v = compute_graham_value row"
    and "peg_ratio v = fst (compute_peg_ratio row)"
    and "peg_ratio_source v = snd (compute_peg_ratio row)"
    and "target_mean_price v = target_mean_price row"
    and "trailing_eps v = trailing_eps row"
    and "forward_eps v = forward_eps row"
    and "trailing_pe v = trailing_pe row"
    and "sector_median_pe v = series_map a (sector row)"
    and "pe_median_used v = fillna (series_map a (sector row)) b"
    and "margin_of_safety v =
           (if pf_gt (compute_graham_value row) (Fin 0)
            then pf_div (pf_sub (compute_graham_value row) (price row)) (compute_graham_value row)
            else NaN)"
    and "peg_pass v =
           pass_fail_unknown
             (notna (fst (compute_peg_ratio row)) \<and> pf_gt (fst (compute_peg_ratio row)) (Fin 0))
             (pf_less (fst (compute_peg_ratio row)) (peg_max th))"
    and "pe_vs_sector_pass v =
           pass_fail_unknown
             (notna (trailing_pe row) \<and> notna (fillna (series_map a (sector row)) b))
             (pf_le (trailing_pe row)
                (pf_mult (fillna (series_map a (sector row)) b) (pe_sector_max_mult th)))"
    and "margin_of_safety_pass v =
           pass_fail_unknown (notna (margin_of_safety v))
             (pf_ge (margin_of_safety v) (margin_of_safety_min th))"
    and "pct_diff v = pf_div (pf_sub (price v) (fair_value v)) (fair_value v)"
  unfolding v_def valued_def
  apply (simp_all add: assign_pct_diff_def split del: if_split cong: if_cong)
  apply (simp_all add: assign_valuation_def split del: if_split cong: if_cong)
  apply (simp_all add: assign_valuation_hunter_def split del: if_split cong: if_cong)
  apply (simp_all add: assign_margin_of_safety_pass_def split del: if_split cong: if_cong)
  apply (simp_all add: assign_pe_vs_sector_pass_def split del: if_split cong: if_cong)
  apply (simp_all add: assign_peg_pass_def split del: if_split cong: if_cong)
  apply (simp_all add: assign_margin_of_safety_def split del: if_split cong: if_cong)
  apply (simp_all add: assign_fair_value_def split del: if_split cong: if_cong)
  apply (simp_all add: assign_pe_median_used_def split del: if_split cong: if_cong)
  apply (simp_all add: assign_sector_median_pe_def split del: if_split cong: if_cong)
  apply (simp_all add: assign_metrics_def split del: if_split cong: if_cong)
  apply (simp_all add: new_columns_fields compute_new_columns split del: if_split cong: if_cong)
  done

lemma select_fair_value_frame:
  "select_fair_value (assign_margin_of_safety r) a b c d = select_fair_value r a b c d"
  "select_fair_value (assign_fair_value a' b' c' d' r) a b c d = select_fair_value r a b c d"
  "select_fair_value (assign_peg_pass th r) a b c d = select_fair_value r a b c d"
  "select_fair_value (assign_pe_vs_sector_pass th r) a b c d = select_fair_value r a b c d"
  "select_fair_value (assign_margin_of_safety_pass th r) a b c d = select_fair_value r a b c d"
  "select_fair_value (assign_valuation_hunter r) a b c d = select_fair_value r a b c d"
  "select_fair_value (assign_valuation th r) a b c d = select_fair_value r a b c d"
  "select_fair_value (assign_pct_diff r) a b c d = select_fair_value r a b c d"
  by (simp_all add: select_fair_value_def Let_def assign_margin_of_safety_def assign_fair_value_def
      assign_peg_pass_def assign_pe_vs_sector_pass_def assign_margin_of_safety_pass_def
      assign_valuation_hunter_def assign_valuation_def assign_pct_diff_def)

lemma hunter_classify_frame:
  "hunter_classify (assign_valuation_hunter r) = hunter_classify r"
  "hunter_classify (assign_valuation th r) = hunter_classify r"
  "hunter_classify (assign_pct_diff r) = hunter_classify r"
  by (simp_all add: hunter_classify_def assign_valuation_hunter_def assign_valuation_def
      assign_pct_diff_def)

lemma classify_frame:
  "classify th' (assign_valuation th r) = classify th' r"
  "classify th' (assign_pct_diff r) = classify th' r"
  by (simp_all add: classify_def assign_valuation_def assign_pct_diff_def)

lemma valued_fair:
  fixes th a b c d row
  defines "v \<equiv> valued th a b c d row"
  shows "fair_value v = fst (select_fair_value v a b c d)"
    and "fair_value_source v = snd (select_fair_value v a b c d)"
  unfolding v_def valued_def select_fair_value_frame
  apply (simp_all add: assign_pct_diff_def)
  apply (simp_all add: assign_valuation_def)
  apply (simp_all add: assign_valuation_hunter_def)
  apply (simp_all add: assign_margin_of_safety_pass_def)
  apply (simp_all add: assign_pe_vs_sector_pass_def)
  apply (simp_all add: assign_peg_pass_def)
  apply (simp_all add: assign_margin_of_safety_def)
  apply (simp_all add: assign_fair_value_def)
  done

lemma valued_verdicts:
  fixes th a b c d row
  defines "v \<equiv> valued th a b c d row"
  shows "valuation_hunter v = hunter_classify v"
    and "valuation v = classify th v"
  unfolding v_def valued_def hunter_classify_frame classify_frame
  apply (simp_all add: assign_pct_diff_def)
  apply (simp_all add: assign_valuation_def)
  apply (simp_all add: assign_valuation_hunter_def)
  done

section \<open>Rows of the valued frame\<close>

text \<open>
  The frame that \<open>apply_valuation\<close> returns has one row for every incoming row; a
  relation between an incoming row and its valued row holds throughout the two frames
  when it holds for every incoming row.
\<close>

lemma pass_fail_unknown_labels:
  "pass_fail_unknown valid condition \<in> {''pass'', ''fail'', ''unknown''}"
  by (simp add: pass_fail_unknown_def)

lemma valued_labels:
  "peg_pass (valued th a b c d row) \<in> {''pass'', ''fail'', ''unknown''}"
  "pe_vs_sector_pass (valued th a b c d row) \<in> {''pass'', ''fail'', ''unknown''}"
  "margin_of_safety_pass (valued th a b c d row) \<in> {''pass'', ''fail'', ''unknown''}"
  by (simp_all only: valued_fields pass_fail_unknown_labels)

text \<open>
  The multiple that \<open>_select_fair_value\<close> uses is the sector median filled with the
  overall median, which is the column \<open>pe_median_used\<close> for the trailing PE.
\<close>

lemma series_get_fillna:
  "(case series_get s k of None \<Rightarrow> d | Some v \<Rightarrow> if isna v then d else v)
     = fillna (series_map s k) d"
  by (simp add: series_map_def fillna_def isna_def split: option.splits)

lemma select_fair_value_chain:
  "select_fair_value v a b c d =
     (let pe = fillna (series_map a (sector v)) b;
          fpe = fillna (series_map c (sector v)) d
      in if notna (graham_value v) \<and> pf_gt (graham_value v) (Fin 0)
         then (graham_value v, ''graham_value'')
         else if notna (target_mean_price v) \<and> pf_gt (target_mean_price v) (Fin 0)
         then (target_mean_price v, ''target_mean_price'')
         else if notna (trailing_eps v) \<and> pf_gt (trailing_eps v) (Fin 0)
                 \<and> notna pe \<and> pf_gt pe (Fin 0)
         then (pf_mult (trailing_eps v) pe, ''sector_median_trailing_pe'')
         else if notna (forward_eps v) \<and> pf_gt (forward_eps v) (Fin 0)
                 \<and> notna fpe \<and> pf_gt fpe (Fin 0)
         then (pf_mult (forward_eps v) fpe, ''sector_median_forward_pe'')
         else (NaN, ''missing''))"
  by (simp add: select_fair_value_def series_get_fillna Let_def)

lemma apply_valuation_rows:
  "list_all2 P df (apply_valuation df th) =
     list_all (\<lambda>r. P r (valued th (groupby_median trailing_pe df) (median (map trailing_pe df))
                            (groupby_median forward_pe df) (median (map forward_pe df)) r)) df"
  by (simp add: apply_valuation_valued list_all2_map2 list_all2_same list_all_iff)



lemma valued_checks:
  "peg_pass (valued th a b c d r) =
     pass_fail_unknown
       (notna (peg_ratio (valued th a b c d r)) \<and> pf_gt (peg_ratio (valued th a b c d r)) (Fin 0))
       (pf_less (peg_ratio (valued th a b c d r)) (peg_max th))"
  "pe_vs_sector_pass (valued th a b c d r) =
     pass_fail_unknown
       (notna (trailing_pe (valued th a b c d r)) \<and> notna (pe_median_used (valued th a b c d r)))
       (pf_le (trailing_pe (valued th a b c d r))
          (pf_mult (pe_median_used (valued th a b c d r)) (pe_sector_max_mult th)))"
  "margin_of_safety_pass (valued th a b c d r) =
     pass_fail_unknown (notna (margin_of_safety (valued th a b c d r)))
       (pf_ge (margin_of_safety (valued th a b c d r)) (margin_of_safety_min th))"
  by (simp_all only: valued_fields)

lemma valued_hunter_chain:
  "valuation_hunter (valued th a b c d r) =
     (if peg_pass (valued th a b c d r) = ''unknown''
          \<or> pe_vs_sector_pass (valued th a b c d r) = ''unknown''
          \<or> margin_of_safety_pass (valued th a b c d r) = ''unknown''
      then ''unknown''
      else if peg_pass (valued th a b c d r) = ''pass''
              \<and> pe_vs_sector_pass (valued th a b c d r) = ''pass''
              \<and> margin_of_safety_pass (valued th a b c d r) = ''pass''
      then ''pass'' else ''fail'')"
  unfolding valued_verdicts(1) hunter_classify_def by simp

lemma hunter_fail_iff:
  assumes "p \<in> {''pass'', ''fail'', ''unknown''}" "q \<in> {''pass'', ''fail'', ''unknown''}"
    "m \<in> {''pass'', ''fail'', ''unknown''}"
  shows "((if p = ''unknown'' \<or> q = ''unknown'' \<or> m = ''unknown'' then ''unknown''
           else if p = ''pass'' \<and> q = ''pass'' \<and> m = ''pass'' then ''pass'' else ''fail'')
          = ''fail'') =
         (p \<in> {''pass'', ''fail''} \<and> q \<in> {''pass'', ''fail''} \<and> m \<in> {''pass'', ''fail''}
          \<and> (p = ''fail'' \<or> q = ''fail'' \<or> m = ''fail''))"
  using assms by auto

lemma valued_hunter_fail:
  "(valuation_hunter (valued th a b c d r) = ''fail'') =
     (peg_pass (valued th a b c d r) \<in> {''pass'', ''fail''}
      \<and> pe_vs_sector_pass (valued th a b c d r) \<in> {''pass'', ''fail''}
      \<and> margin_of_safety_pass (valued th a b c d r) \<in> {''pass'', ''fail''}
      \<and> (peg_pass (valued th a b c d r) = ''fail''
           \<or> pe_vs_sector_pass (valued th a b c d r) = ''fail''
           \<or> margin_of_safety_pass (valued th a b c d r) = ''fail''))"
  unfolding valued_hunter_chain by (rule hunter_fail_iff) (rule valued_labels)+

section \<open>Verdict properties\<close>

text \<open>
  Claim C5. \<open>apply_valuation\<close> returns one row for every incoming row, and in that row
  the three checks are the labels that \<open>_pass_fail_unknown\<close> gives for the row's ratio,
  trailing PE and margin; \<open>valuation_hunter\<close> is "unknown" when one of \<open>peg_pass\<close>,
  \<open>pe_vs_sector_pass\<close>, \<open>margin_of_safety_pass\<close> is "unknown"; otherwise it is "pass"
  when all three are "pass", and "fail" if not. So a row is "fail" exactly when every
  check is "pass" or "fail" and one of them is "fail": never while a check is unknown.
\<close>

theorem hunter_unknown_dominates:
  "list_all2
     (\<lambda>r v.
        peg_ratio v = fst (compute_peg_ratio r)
        \<and> trailing_pe v = trailing_pe r
        \<and> pe_median_used v =
            fillna (series_map (groupby_median trailing_pe df) (sector r))
              (median (map trailing_pe df))
        \<and> margin_of_safety v =
            (if pf_gt (compute_graham_value r) (Fin 0)
             then pf_div (pf_sub (compute_graham_value r) (price r)) (compute_graham_value r)
             else NaN)
        \<and> peg_pass v =
            pass_fail_unknown (notna (peg_ratio v) \<and> pf_gt (peg_ratio v) (Fin 0))
              (pf_less (peg_ratio v) (peg_max th))
        \<and> pe_vs_sector_pass v =
            pass_fail_unknown (notna (trailing_pe v) \<and> notna (pe_median_used v))
              (pf_le (trailing_pe v) (pf_mult (pe_median_used v) (pe_sector_max_mult th)))
        \<and> margin_of_safety_pass v =
            pass_fail_unknown (notna (margin_of_safety v))
              (pf_ge (margin_of_safety v) (margin_of_safety_min th))
        \<and> valuation_hunter v =
            (if peg_pass v = ''unknown'' \<or> pe_vs_sector_pass v = ''unknown''
                \<or> margin_of_safety_pass v = ''unknown''
             then ''unknown''
             else if peg_pass v = ''pass'' \<and> pe_vs_sector_pass v = ''pass''
                     \<and> margin_of_safety_pass v = ''pass''
             then ''pass'' else ''fail'')
        \<and> (valuation_hunter v = ''fail'') =
            (peg_pass v \<in> {''pass'', ''fail''} \<and> pe_vs_sector_pass v \<in> {''pass'', ''fail''}
             \<and> margin_of_safety_pass v \<in> {''pass'', ''fail''}
             \<and> (peg_pass v = ''fail'' \<or> pe_vs_sector_pass v = ''fail''
                  \<or> margin_of_safety_pass v = ''fail'')))
     df (apply_valuation df th)
   \<and> pass_fail_unknown valid condition =
       (if valid then (if condition then ''pass'' else ''fail'') else ''unknown'')"
proof -
  have rows: "list_all2
     (\<lambda>r v.
        peg_ratio v = fst (compute_peg_ratio r)
        \<and> trailing_pe v = trailing_pe r
        \<and> pe_median_used v =
            fillna (series_map (groupby_median trailing_pe df) (sector r))
              (median (map trailing_pe df))
        \<and> margin_of_safety v =
            (if pf_gt (compute_graham_value r) (Fin 0)
             then pf_div (pf_sub (compute_graham_value r) (price r)) (compute_graham_value r)
             else NaN)
        \<and> peg_pass v =
            pass_fail_unknown (notna (peg_ratio v) \<and> pf_gt (peg_ratio v) (Fin 0))
              (pf_less (peg_ratio v) (peg_max th))
        \<and> pe_vs_sector_pass v =
            pass_fail_unknown (notna (trailing_pe v) \<and> notna (pe_median_used v))
              (pf_le (trailing_pe v) (pf_mult (pe_median_used v) (pe_sector_max_mult th)))
        \<and> margin_of_safety_pass v =
            pass_fail_unknown (notna (margin_of_safety v))
              (pf_ge (margin_of_safety v) (margin_of_safety_min th))
        \<and> valuation_hunter v =
            (if peg_pass v = ''unknown'' \<or> pe_vs_sector_pass v = ''unknown''
                \<or> margin_of_safety_pass v = ''unknown''
             then ''unknown''
             else if peg_pass v = ''pass'' \<and> pe_vs_sector_pass v = ''pass''
                     \<and> margin_of_safety_pass v = ''pass''
             then ''pass'' else ''fail'')
        \<and> (valuation_hunter v = ''fail'') =
            (peg_pass v \<in> {''pass'', ''fail''} \<and> pe_vs_sector_pass v \<in> {''pass'', ''fail''}
             \<and> margin_of_safety_pass v \<in> {''pass'', ''fail''}
             \<and> (peg_pass v = ''fail'' \<or> pe_vs_sector_pass v = ''fail''
                  \<or> margin_of_safety_pass v = ''fail'')))
     df (apply_valuation df th)"
    unfolding apply_valuation_rows list_all_iff
    by (intro ballI conjI valued_fields valued_checks valued_hunter_chain valued_hunter_fail)
  have label: "pass_fail_unknown valid condition =
       (if valid then (if condition then ''pass'' else ''fail'') else ''unknown'')"
    by (simp add: pass_fail_unknown_def)
  show ?thesis
    by (intro conjI rows label)
qed



section \<open>Derivation properties\<close>

text \<open>
  Claim C1. \<open>apply_valuation\<close> returns one row for every incoming row, and in that row
  \<open>fair_value\<close> and \<open>fair_value_source\<close> follow the chain in which the first match
  wins: \<open>graham_value\<close> (the Graham value of the incoming row) when present and
  positive; else \<open>target_mean_price\<close> when present and positive; else \<open>trailing_eps\<close> times
  the trailing multiple when both are present and positive; else \<open>forward_eps\<close> times
  the forward multiple when both are present and positive; else absent with source
  "missing". A multiple is the median of the row's sector in the incoming frame, or
  the overall median where the sector's is absent. \<open>_select_fair_value\<close> is this chain
  on every row and statistics, and a positive finite \<open>graham_value\<close> decides the result
  whatever the other cells hold.
\<close>

theorem fair_value_chain:
  "list_all2
     (\<lambda>r v.
        sector v = sector r \<and> target_mean_price v = target_mean_price r
        \<and> trailing_eps v = trailing_eps r \<and> forward_eps v = forward_eps r
        \<and> graham_value v = compute_graham_value r
        \<and> (fair_value v, fair_value_source v) =
            (let pe = fillna (series_map (groupby_median trailing_pe df) (sector r))
                        (median (map trailing_pe df));
                 fpe = fillna (series_map (groupby_median forward_pe df) (sector r))
                         (median (map forward_pe df))
             in if notna (graham_value v) \<and> pf_gt (graham_value v) (Fin 0)
                then (graham_value v, ''graham_value'')
                else if notna (target_mean_price r) \<and> pf_gt (target_mean_price r) (Fin 0)
                then (target_mean_price r, ''target_mean_price'')
                else if notna (trailing_eps r) \<and> pf_gt (trailing_eps r) (Fin 0)
                        \<and> notna pe \<and> pf_gt pe (Fin 0)
                then (pf_mult (trailing_eps r) pe, ''sector_median_trailing_pe'')
                else if notna (forward_eps r) \<and> pf_gt (forward_eps r) (Fin 0)
                        \<and> notna fpe \<and> pf_gt fpe (Fin 0)
                then (pf_mult (forward_eps r) fpe, ''sector_median_forward_pe'')
                else (NaN, ''missing'')))
     df (apply_valuation df th)
   \<and> select_fair_value w a b c d =
       (let pe = fillna (series_map a (sector w)) b;
            fpe = fillna (series_map c (sector w)) d
        in if notna (graham_value w) \<and> pf_gt (graham_value w) (Fin 0)
           then (graham_value w, ''graham_value'')
           else if notna (target_mean_price w) \<and> pf_gt (target_mean_price w) (Fin 0)
           then (target_mean_price w, ''target_mean_price'')
           else if notna (trailing_eps w) \<and> pf_gt (trailing_eps w) (Fin 0)
                   \<and> notna pe \<and> pf_gt pe (Fin 0)
           then (pf_mult (trailing_eps w) pe, ''sector_median_trailing_pe'')
           else if notna (forward_eps w) \<and> pf_gt (forward_eps w) (Fin 0)
                   \<and> notna fpe \<and> pf_gt fpe (Fin 0)
           then (pf_mult (forward_eps w) fpe, ''sector_median_forward_pe'')
           else (NaN, ''missing''))
   \<and> select_fair_value (w\<lparr>graham_value := Fin g\<rparr>) a b c d =
       (if 0 < g then (Fin g, ''graham_value'')
        else select_fair_value (w\<lparr>graham_value := NaN\<rparr>) a b c d)"
proof -
  have rows: "list_all2
     (\<lambda>r v.
        sector v = sector r \<and> target_mean_price v = target_mean_price r
        \<and> trailing_eps v = trailing_eps r \<and> forward_eps v = forward_eps r
        \<and> graham_value v = compute_graham_value r
        \<and> (fair_value v, fair_value_source v) =
            (let pe = fillna (series_map (groupby_median trailing_pe df) (sector r))
                        (median (map trailing_pe df));
                 fpe = fillna (series_map (groupby_median forward_pe df) (sector r))
                         (median (map forward_pe df))
             in if notna (graham_value v) \<and> pf_gt (graham_value v) (Fin 0)
                then (graham_value v, ''graham_value'')
                else if notna (target_mean_price r) \<and> pf_gt (target_mean_price r) (Fin 0)
                then (target_mean_price r, ''target_mean_price'')
                else if notna (trailing_eps r) \<and> pf_gt (trailing_eps r) (Fin 0)
                        \<and> notna pe \<and> pf_gt pe (Fin 0)
                then (pf_mult (trailing_eps r) pe, ''sector_median_trailing_pe'')
                else if notna (forward_eps r) \<and> pf_gt (forward_eps r) (Fin 0)
                        \<and> notna fpe \<and> pf_gt fpe (Fin 0)
                then (pf_mult (forward_eps r) fpe, ''sector_median_forward_pe'')
                else (NaN, ''missing'')))
     df (apply_valuation df th)"
    unfolding apply_valuation_rows list_all_iff
    by (simp add: valued_fair select_fair_value_chain valued_fields Let_def)
  have first: "select_fair_value (w\<lparr>graham_value := Fin g\<rparr>) a b c d =
       (if 0 < g then (Fin g, ''graham_value'')
        else select_fair_value (w\<lparr>graham_value := NaN\<rparr>) a b c d)"
    by (simp add: select_fair_value_def notna_def pf_gt_def Let_def)
  show ?thesis
    by (intro conjI rows select_fair_value_chain first)
qed

text \<open>
  Claim C2. In every frame that \<open>apply_valuation\<close> returns, \<open>peg_ratio\<close> and
  \<open>peg_ratio_source\<close> of a row come from the incoming row: the reported \<open>peg_ratio\<close>
  unchanged, source "reported", when present and positive; else, when \<open>trailing_pe\<close>
  and \<open>earnings_growth\<close> are present and positive, \<open>trailing_pe\<close> divided by the growth
  as a percentage (times 100 when the growth is at most 1, as it is otherwise) when
  that percentage is positive, source "derived"; else absent, source "missing". On
  finite numbers this is real division, and a row with no reported ratio,
  \<open>trailing_pe = 20\<close> and \<open>earnings_growth = 0.15\<close> gets \<open>20/15\<close>, "derived".
\<close>

theorem peg_ratio_chain:
  "map (\<lambda>v. (peg_ratio v, peg_ratio_source v)) (apply_valuation df th) =
     map (\<lambda>r.
        if notna (peg_ratio r) \<and> pf_gt (peg_ratio r) (Fin 0)
        then (peg_ratio r, ''reported'')
        else if notna (trailing_pe r) \<and> pf_gt (trailing_pe r) (Fin 0)
                \<and> notna (earnings_growth r) \<and> pf_gt (earnings_growth r) (Fin 0)
        then (let growth_pct = (if pf_le (earnings_growth r) (Fin 1)
                                then pf_mult (earnings_growth r) (Fin 100)
                                else earnings_growth r)
              in if pf_gt growth_pct (Fin 0)
                 then (pf_div (trailing_pe r) growth_pct, ''derived'')
                 else (NaN, ''missing''))
        else (NaN, ''missing''))
       df
   \<and> compute_peg_ratio (r\<lparr>peg_ratio := NaN, trailing_pe := Fin pe, earnings_growth := Fin g\<rparr>) =
       (if 0 < pe \<and> 0 < g
        then (Fin (pe / (if g \<le> 1 then g * 100 else g)), ''derived'')
        else (NaN, ''missing''))
   \<and> map (\<lambda>v. (peg_ratio v, peg_ratio_source v))
        (apply_valuation
           [r\<lparr>peg_ratio := NaN, trailing_pe := Fin 20, earnings_growth := Fin (15 / 100)\<rparr>] th)
       = [(Fin (20 / 15), ''derived'')]"
proof -
  have fin: "compute_peg_ratio (r\<lparr>peg_ratio := NaN, trailing_pe := Fin pe, earnings_growth := Fin g\<rparr>) =
       (if 0 < pe \<and> 0 < g
        then (Fin (pe / (if g \<le> 1 then g * 100 else g)), ''derived'')
        else (NaN, ''missing''))" for r :: snapshot and pe g
    by (auto simp: compute_peg_ratio_def notna_def pf_gt_def Let_def)
  have row: "(peg_ratio (valued th a b c d r), peg_ratio_source (valued th a b c d r))
      = compute_peg_ratio r" for a b c d r
    by (simp add: valued_fields)
  have chain: "compute_peg_ratio r =
       (if notna (peg_ratio r) \<and> pf_gt (peg_ratio r) (Fin 0)
        then (peg_ratio r, ''reported'')
        else if notna (trailing_pe r) \<and> pf_gt (trailing_pe r) (Fin 0)
                \<and> notna (earnings_growth r) \<and> pf_gt (earnings_growth r) (Fin 0)
        then (let growth_pct = (if pf_le (earnings_growth r) (Fin 1)
                                then pf_mult (earnings_growth r) (Fin 100)
                                else earnings_growth r)
              in if pf_gt growth_pct (Fin 0)
                 then (pf_div (trailing_pe r) growth_pct, ''derived'')
                 else (NaN, ''missing''))
        else (NaN, ''missing''))" for r :: snapshot
    by (simp add: compute_peg_ratio_def Let_def)
  have all: "map (\<lambda>v. (peg_ratio v, peg_ratio_source v)) (apply_valuation df th)
      = map compute_peg_ratio df" for df
    by (simp add: apply_valuation_valued row o_def)
  have ex: "map (\<lambda>v. (peg_ratio v, peg_ratio_source v))
        (apply_valuation
           [r\<lparr>peg_ratio := NaN, trailing_pe := Fin 20, earnings_growth := Fin (15 / 100)\<rparr>] th)
       = [(Fin (20 / 15), ''derived'')]"
    unfolding all by (simp add: fin)
  show ?thesis
    unfolding all by (intro conjI map_cong [OF refl] chain fin ex [unfolded all])
qed

lemma pf_sub_NaN: "pf_sub x NaN = NaN"
  by (cases x) (simp_all add: pf_sub_def)

text \<open>
  Claim C3. In every frame that \<open>apply_valuation\<close> returns, \<open>graham_value\<close> is the
  square root of 22.5 times \<open>trailing_eps\<close> times \<open>book_value_per_share\<close> of the incoming
  row when both are present and positive, and absent otherwise; \<open>margin_of_safety\<close> is
  \<open>(graham_value - price) / graham_value\<close> when \<open>graham_value\<close> is present and
  positive, and absent otherwise. On finite numbers these are the real square root,
  difference and quotient, and a row whose price is absent has an absent margin.
\<close>

theorem graham_and_margin:
  "map graham_value (apply_valuation df th) =
     map (\<lambda>r. if notna (trailing_eps r) \<and> pf_gt (trailing_eps r) (Fin 0)
                  \<and> notna (book_value_per_share r) \<and> pf_gt (book_value_per_share r) (Fin 0)
               then pf_sqrt (pf_mult (pf_mult (Fin 22.5) (trailing_eps r)) (book_value_per_share r))
               else NaN)
       df
   \<and> map margin_of_safety (apply_valuation df th) =
       map (\<lambda>v. if notna (graham_value v) \<and> pf_gt (graham_value v) (Fin 0)
                 then pf_div (pf_sub (graham_value v) (price v)) (graham_value v)
                 else NaN)
         (apply_valuation df th)
   \<and> compute_graham_value (r\<lparr>trailing_eps := Fin e, book_value_per_share := Fin b\<rparr>) =
       (if 0 < e \<and> 0 < b then Fin (sqrt (22.5 * e * b)) else NaN)
   \<and> margin_of_safety (assign_margin_of_safety (v\<lparr>graham_value := Fin g, price := Fin p\<rparr>)) =
       (if 0 < g then Fin ((g - p) / g) else NaN)
   \<and> margin_of_safety (assign_margin_of_safety (v\<lparr>price := NaN\<rparr>)) = NaN
   \<and> map margin_of_safety (apply_valuation (map (\<lambda>r. r\<lparr>price := NaN\<rparr>) df) th) =
       map (\<lambda>r. NaN) df"
proof -
  have graham: "graham_value (valued th a b c d r) =
      (if notna (trailing_eps r) \<and> pf_gt (trailing_eps r) (Fin 0)
          \<and> notna (book_value_per_share r) \<and> pf_gt (book_value_per_share r) (Fin 0)
       then pf_sqrt (pf_mult (pf_mult (Fin 22.5) (trailing_eps r)) (book_value_per_share r))
       else NaN)" for a b c d r
    by (auto simp: valued_fields compute_graham_value_def Let_def)
  have c1: "map graham_value (apply_valuation df th) =
     map (\<lambda>r. if notna (trailing_eps r) \<and> pf_gt (trailing_eps r) (Fin 0)
                  \<and> notna (book_value_per_share r) \<and> pf_gt (book_value_per_share r) (Fin 0)
               then pf_sqrt (pf_mult (pf_mult (Fin 22.5) (trailing_eps r)) (book_value_per_share r))
               else NaN)
       df"
    unfolding apply_valuation_valued map_map o_def graham ..
  have margin: "margin_of_safety (valued th a b c d r) =
      (if notna (graham_value (valued th a b c d r))
            \<and> pf_gt (graham_value (valued th a b c d r)) (Fin 0)
       then pf_div (pf_sub (graham_value (valued th a b c d r)) (price (valued th a b c d r)))
              (graham_value (valued th a b c d r))
       else NaN)" for a b c d r
    by (cases "compute_graham_value r") (simp_all add: valued_fields notna_def pf_gt_def)
  have c2: "map margin_of_safety (apply_valuation df th) =
       map (\<lambda>v. if notna (graham_value v) \<and> pf_gt (graham_value v) (Fin 0)
                 then pf_div (pf_sub (graham_value v) (price v)) (graham_value v)
                 else NaN)
         (apply_valuation df th)"
    unfolding apply_valuation_valued map_map o_def margin ..
  have c3: "compute_graham_value (r\<lparr>trailing_eps := Fin e, book_value_per_share := Fin b\<rparr>) =
       (if 0 < e \<and> 0 < b then Fin (sqrt (22.5 * e * b)) else NaN)"
    by (auto simp: compute_graham_value_def notna_def pf_gt_def Let_def mult_less_0_iff)
  have c4: "margin_of_safety (assign_margin_of_safety (v\<lparr>graham_value := Fin g, price := Fin p\<rparr>)) =
       (if 0 < g then Fin ((g - p) / g) else NaN)"
    by (simp add: assign_margin_of_safety_def pf_gt_def pf_sub_def)
  have c5: "margin_of_safety (assign_margin_of_safety (v\<lparr>price := NaN\<rparr>)) = NaN"
    by (simp add: assign_margin_of_safety_def pf_sub_NaN)
  have "margin_of_safety (valued th a b c d (r\<lparr>price := NaN\<rparr>)) = NaN" for a b c d and r :: snapshot
    by (simp add: valued_fields pf_sub_NaN)
  then have c6: "map margin_of_safety (apply_valuation (map (\<lambda>r. r\<lparr>price := NaN\<rparr>) df) th) =
       map (\<lambda>r. NaN) df"
    by (simp add: apply_valuation_valued o_def)
  show ?thesis
    by (intro conjI c1 c2 c3 c4 c5 c6)
qed

section \<open>The normalizer, pass by pass\<close>

lemma cleanse_fundamentals_rows:
  "cleanse_fundamentals df =
     map sanitize_row
       (drop_duplicates (filter (\<lambda>r. ticker r \<noteq> Text '''') (map normalize_row df)))"
proof -
  have "filter (\<lambda>r. \<not> text_isna (ticker r) \<and> ticker r \<noteq> Text '''')
          (map (\<lambda>r. r\<lparr>ticker := normalize_ticker (ticker r)\<rparr>) df)
        = filter (\<lambda>r. ticker r \<noteq> Text '''') (map normalize_row df)"
    by (simp add: filter_map o_def normalize_row_def normalize_ticker_def text_isna_def)
  then show ?thesis
    by (simp add: cleanse_fundamentals_def schema_validate_def sanitize_row_def Let_def o_def
        cong: if_cong)
qed

text \<open>Trimming, upper case and the replacement of dots, applied twice.\<close>

lemma last_dropWhile: "dropWhile P xs \<noteq> [] \<Longrightarrow> last (dropWhile P xs) = last xs"
  by (induction xs) (auto split: if_splits)

lemma dropWhile_fixed: "xs = [] \<or> \<not> P (hd xs) \<Longrightarrow> dropWhile P xs = xs"
  by (cases xs) auto

lemma strip_ends:
  "strip s = [] \<or> (\<not> py_isspace (hd (strip s)) \<and> \<not> py_isspace (last (strip s)))"
proof (cases "strip s = []")
  case True
  then show ?thesis by simp
next
  case False
  define u where "u = dropWhile py_isspace s"
  define w where "w = dropWhile py_isspace (rev u)"
  have s: "strip s = rev w"
    by (simp add: strip_def u_def w_def)
  with False have w: "w \<noteq> []" by simp
  then have "\<not> py_isspace (hd w)"
    unfolding w_def by (rule hd_dropWhile)
  moreover have "last w = last (rev u)"
    using w unfolding w_def by (rule last_dropWhile)
  moreover have "u \<noteq> []"
    using w by (auto simp: w_def)
  then have "\<not> py_isspace (hd u)"
    unfolding u_def by (rule hd_dropWhile)
  ultimately show ?thesis
    using w \<open>u \<noteq> []\<close> by (simp add: s hd_rev last_rev)
qed

lemma strip_fixed:
  assumes "t = [] \<or> (\<not> py_isspace (hd t) \<and> \<not> py_isspace (last t))"
  shows "strip t = t"
proof (cases "t = []")
  case True
  then show ?thesis by (simp add: strip_def)
next
  case False
  with assms have h: "\<not> py_isspace (hd t)" and l: "\<not> py_isspace (last t)" by auto
  have "dropWhile py_isspace t = t"
    using h by (simp add: dropWhile_fixed)
  moreover have "dropWhile py_isspace (rev t) = rev t"
    using l False by (simp add: dropWhile_fixed hd_rev)
  ultimately show ?thesis
    by (simp add: strip_def)
qed

lemma strip_map:
  assumes "\<And>c. py_isspace (f c) = py_isspace c"
  shows "strip (map f s) = map f (strip s)"
proof -
  have "dropWhile py_isspace (map f xs) = map f (dropWhile py_isspace xs)" for xs
    by (simp add: dropWhile_map o_def assms)
  then show ?thesis
    by (simp add: strip_def rev_map)
qed

lemma upper_char_space: "py_isspace (upper_char c) = py_isspace c"
  by (auto simp: upper_char_def py_isspace_def Let_def)

lemma upper_char_idem: "upper_char (upper_char c) = upper_char c"
  by (auto simp: upper_char_def Let_def)

lemma upper_char_dash: "upper_char (CHR ''-'') = CHR ''-''"
  by (simp add: upper_char_def)

lemma replace_dot_space:
  "py_isspace (if c = CHR ''.'' then CHR ''-'' else c) = py_isspace c"
  by (simp add: py_isspace_def)

lemma normalize_ticker_idem: "normalize_ticker (normalize_ticker c) = normalize_ticker c"
proof -
  define f where "f = (\<lambda>c. if c = CHR ''.'' then CHR ''-'' else c) \<circ> upper_char"
  have sp: "py_isspace (f c) = py_isspace c" for c
    unfolding f_def comp_def by (simp only: replace_dot_space upper_char_space)
  have idem: "f (f c) = f c" for c
    by (simp add: f_def upper_char_idem upper_char_dash)
  have n: "replace_dot (upper s) = map f s" for s
    by (simp add: replace_dot_def upper_def f_def)
  have "strip (map f (strip s)) = map f (strip s)" for s
    by (simp add: strip_map sp strip_fixed strip_ends)
  then show ?thesis
    by (simp add: normalize_ticker_def astype_str_def n idem o_def)
qed



text \<open>The cell passes applied twice, and what they leave alone.\<close>

lemma replace_inf_idem: "replace_inf (replace_inf x) = replace_inf x"
  by (simp add: replace_inf_def)

lemma sector_unknown_idem: "sector_unknown (sector_unknown c) = sector_unknown c"
  by (cases c) (simp_all add: sector_unknown_def text_isna_def Let_def)

lemma positive_or_nan_idem: "positive_or_nan (positive_or_nan x) = positive_or_nan x"
  by (cases x) (simp_all add: positive_or_nan_def replace_inf_def)

lemma sanitize_row_closed:
  "sanitize_row r =
     r\<lparr>price := positive_or_nan (price r), market_cap := positive_or_nan (market_cap r),
       trailing_pe := replace_inf (trailing_pe r), forward_pe := replace_inf (forward_pe r),
       trailing_eps := replace_inf (trailing_eps r), forward_eps := replace_inf (forward_eps r),
       earnings_growth := replace_inf (earnings_growth r), peg_ratio := replace_inf (peg_ratio r),
       book_value_per_share := replace_inf (book_value_per_share r),
       target_mean_price := replace_inf (target_mean_price r),
       sector := sector_unknown (sector r)\<rparr>"
  by (simp add: sanitize_row_def replace_inf_row_def positive_or_nan_def Let_def)

lemma sanitize_row_idem: "sanitize_row (sanitize_row r) = sanitize_row r"
  by (simp add: sanitize_row_closed replace_inf_idem sector_unknown_idem positive_or_nan_idem)

lemma ticker_sanitize_row: "ticker (sanitize_row r) = ticker r"
  by (simp add: sanitize_row_closed)

lemma normalize_sanitize_row: "normalize_row (sanitize_row r) = sanitize_row (normalize_row r)"
  by (simp add: sanitize_row_closed normalize_row_def)

text \<open>Dropping duplicates keeps, for every ticker of the frame, its first row.\<close>

lemma keep_first_subset: "set (keep_first seen xs) \<subseteq> set xs"
  by (induction xs arbitrary: seen) auto

lemma keep_first_tickers:
  "ticker ` set (keep_first seen xs) = ticker ` set xs - set seen"
  by (induction xs arbitrary: seen) auto

lemma keep_first_distinct: "distinct (map ticker (keep_first seen xs))"
  by (induction xs arbitrary: seen) (auto simp: keep_first_tickers)

lemma keep_first_fixed:
  "distinct (map ticker xs) \<Longrightarrow> ticker ` set xs \<inter> set seen = {} \<Longrightarrow> keep_first seen xs = xs"
  by (induction xs arbitrary: seen) auto

lemma keep_first_idem: "keep_first [] (keep_first [] xs) = keep_first [] xs"
  by (rule keep_first_fixed) (simp_all add: keep_first_distinct)

lemma keep_first_map:
  assumes "\<And>r. ticker (f r) = ticker r"
  shows "keep_first seen (map f xs) = map f (keep_first seen xs)"
  by (induction xs arbitrary: seen) (simp_all add: assms)

lemma keep_first_length:
  "length (keep_first seen xs) = card (ticker ` set xs - set seen)"
proof -
  have "length (keep_first seen xs) = length (map ticker (keep_first seen xs))"
    by simp
  also have "\<dots> = card (set (map ticker (keep_first seen xs)))"
    by (rule distinct_card [symmetric]) (rule keep_first_distinct)
  finally show ?thesis
    by (simp add: keep_first_tickers)
qed

lemma keep_first_find:
  "y \<in> set (keep_first seen xs) \<Longrightarrow> find (\<lambda>x. ticker x = ticker y) xs = Some y"
proof (induction xs arbitrary: seen)
  case Nil
  then show ?case by simp
next
  case (Cons x xs)
  show ?case
  proof (cases "ticker x = ticker y")
    case True
    have "y \<notin> set (keep_first (ticker x # seen) xs)"
      using keep_first_tickers [of "ticker x # seen" xs] True by auto
    with Cons.prems True show ?thesis
      using keep_first_tickers [of seen xs] by (auto split: if_splits)
  next
    case False
    with Cons show ?thesis
      by (auto split: if_splits)
  qed
qed

section \<open>Normalizer properties\<close>

text \<open>The rows that reach the cell passes: normalized, non-empty, first of their ticker.\<close>

lemma retained_normalized:
  assumes "y \<in> set (drop_duplicates (filter (\<lambda>r. ticker r \<noteq> Text []) (map normalize_row df)))"
  shows "normalize_row y = y" and "ticker y \<noteq> Text []"
proof -
  from assms have "y \<in> set (filter (\<lambda>r. ticker r \<noteq> Text []) (map normalize_row df))"
    using keep_first_subset unfolding drop_duplicates_def by blast
  then obtain r where y: "y = normalize_row r" and ne: "ticker y \<noteq> Text []"
    by auto
  show "normalize_row y = y"
    unfolding y by (simp add: normalize_row_def normalize_ticker_idem)
  show "ticker y \<noteq> Text []"
    by (rule ne)
qed

text \<open>
  Claim C6. The normalizer is idempotent: on every frame, \<open>cleanse_fundamentals\<close>
  applied to its own result gives that result again.
\<close>

theorem cleanse_fundamentals_idempotent:
  "cleanse_fundamentals (cleanse_fundamentals df) = cleanse_fundamentals df"
proof -
  define X where "X = drop_duplicates (filter (\<lambda>r. ticker r \<noteq> Text []) (map normalize_row df))"
  have once: "cleanse_fundamentals df = map sanitize_row X"
    by (simp add: cleanse_fundamentals_rows X_def)
  have "map normalize_row (map sanitize_row X) = map sanitize_row (map normalize_row X)"
    by (simp add: o_def normalize_sanitize_row)
  also have "map normalize_row X = X"
    by (rule map_idI) (rule retained_normalized(1) [of _ df], simp add: X_def)
  finally have n: "map normalize_row (map sanitize_row X) = map sanitize_row X" .
  have "filter (\<lambda>r. ticker r \<noteq> Text []) (map sanitize_row X)
      = map sanitize_row (filter (\<lambda>r. ticker r \<noteq> Text []) X)"
    by (simp add: filter_map o_def ticker_sanitize_row)
  also have "filter (\<lambda>r. ticker r \<noteq> Text []) X = X"
  proof -
    have "\<forall>y\<in>set X. ticker y \<noteq> Text []"
      unfolding X_def using retained_normalized(2) [of _ df] by blast
    then show ?thesis
      by (simp only: filter_id_conv)
  qed
  finally have f: "filter (\<lambda>r. ticker r \<noteq> Text []) (map sanitize_row X) = map sanitize_row X" .
  have "drop_duplicates (map sanitize_row X) = map sanitize_row (drop_duplicates X)"
    by (simp add: drop_duplicates_def keep_first_map ticker_sanitize_row)
  also have "drop_duplicates X = X"
    by (simp add: X_def drop_duplicates_def keep_first_idem)
  finally have d: "drop_duplicates (map sanitize_row X) = map sanitize_row X" .
  have "cleanse_fundamentals (map sanitize_row X) = map sanitize_row (map sanitize_row X)"
    by (simp only: cleanse_fundamentals_rows n f d)
  then show ?thesis
    by (simp add: once sanitize_row_idem)
qed

lemma find_retained:
  assumes "t \<noteq> Text []"
  shows "find (\<lambda>x. ticker x = t) (filter (\<lambda>r. ticker r \<noteq> Text []) (map normalize_row df))
           = map_option normalize_row (find (\<lambda>r. normalize_ticker (ticker r) = t) df)"
  using assms by (induction df) (auto simp: normalize_row_def)

lemma cleanse_fundamentals_single:
  "ticker (normalize_row r) \<noteq> Text []
     \<Longrightarrow> cleanse_fundamentals [r] = [sanitize_row (normalize_row r)]"
  by (simp add: cleanse_fundamentals_rows drop_duplicates_def)

lemma cleanse_fundamentals_tickers:
  "ticker ` set (cleanse_fundamentals df)
     = (normalize_ticker \<circ> ticker) ` set df - {Text []}"
proof -
  have "ticker ` set (cleanse_fundamentals df)
      = ticker ` set (filter (\<lambda>r. ticker r \<noteq> Text []) (map normalize_row df))"
    by (simp add: cleanse_fundamentals_rows drop_duplicates_def image_image ticker_sanitize_row
        keep_first_tickers)
  also have "\<dots> = ticker ` set (map normalize_row df) - {Text []}"
    by auto
  also have "ticker ` set (map normalize_row df) = (normalize_ticker \<circ> ticker) ` set df"
    by (simp add: image_image normalize_row_def)
  finally show ?thesis .
qed

text \<open>
  Claim C7, as it stands, counts the empty ticker: a frame whose only row has a blank
  ticker has one distinct normalized ticker and no row after normalization.
\<close>

theorem dedup_count_counterexample:
  "length (cleanse_fundamentals [sample_row\<lparr>ticker := Text '' ''\<rparr>]) = 0
   \<and> card ((normalize_ticker \<circ> ticker) ` set [sample_row\<lparr>ticker := Text '' ''\<rparr>]) = 1
   \<and> length (cleanse_fundamentals [sample_row\<lparr>ticker := Text '' ''\<rparr>])
       \<noteq> card ((normalize_ticker \<circ> ticker) ` set [sample_row\<lparr>ticker := Text '' ''\<rparr>])"
proof -
  have "normalize_ticker (Text '' '') = Text []"
    by (simp add: normalize_ticker_def astype_str_def strip_def py_isspace_def upper_def
        replace_dot_def)
  then show ?thesis
    by (simp add: cleanse_fundamentals_rows normalize_row_def drop_duplicates_def)
qed

text \<open>
  Claim C7, amended. On every frame, the number of rows after normalization is the
  number of distinct normalized tickers (trimmed, upper case, dots replaced by
  dashes) that are not empty; the tickers of the result are distinct and none is
  empty; and every row of the result is what the normalizer makes of the first row of
  the incoming frame whose normalized ticker is that row's ticker.
\<close>

theorem dedup_first_occurrence:
  "length (cleanse_fundamentals df) = card ((normalize_ticker \<circ> ticker) ` set df - {Text ''''})
   \<and> distinct (map ticker (cleanse_fundamentals df))
   \<and> Text '''' \<notin> set (map ticker (cleanse_fundamentals df))
   \<and> map (\<lambda>out. [out]) (cleanse_fundamentals df) =
       map (\<lambda>out. case find (\<lambda>r. normalize_ticker (ticker r) = ticker out) df of
                    None \<Rightarrow> []
                  | Some r \<Rightarrow> cleanse_fundamentals [r])
         (cleanse_fundamentals df)"
proof -
  define Y where "Y = filter (\<lambda>r. ticker r \<noteq> Text []) (map normalize_row df)"
  define X where "X = drop_duplicates Y"
  have once: "cleanse_fundamentals df = map sanitize_row X"
    by (simp add: cleanse_fundamentals_rows X_def Y_def)
  have dist: "distinct (map ticker (cleanse_fundamentals df))"
    by (simp add: once o_def ticker_sanitize_row X_def drop_duplicates_def keep_first_distinct)
  have tick: "set (map ticker (cleanse_fundamentals df))
      = (normalize_ticker \<circ> ticker) ` set df - {Text []}"
    using cleanse_fundamentals_tickers [of df] by simp
  have "length (cleanse_fundamentals df) = length (map ticker (cleanse_fundamentals df))"
    by simp
  also have "\<dots> = card (set (map ticker (cleanse_fundamentals df)))"
    using dist by (rule distinct_card [symmetric])
  finally have len: "length (cleanse_fundamentals df)
      = card ((normalize_ticker \<circ> ticker) ` set df - {Text []})"
    by (simp only: tick)
  have first: "(case find (\<lambda>r. normalize_ticker (ticker r) = ticker (sanitize_row y)) df of
                  None \<Rightarrow> []
                | Some r \<Rightarrow> cleanse_fundamentals [r]) = [sanitize_row y]"
    if y: "y \<in> set X" for y
  proof -
    have ne: "ticker y \<noteq> Text []"
      using y retained_normalized(2) [of y df] by (simp add: X_def Y_def)
    have "find (\<lambda>x. ticker x = ticker y) Y = Some y"
      using y unfolding X_def drop_duplicates_def by (rule keep_first_find)
    then have "map_option normalize_row (find (\<lambda>r. normalize_ticker (ticker r) = ticker y) df)
        = Some y"
      by (simp add: Y_def find_retained [OF ne])
    then obtain r where r: "find (\<lambda>r. normalize_ticker (ticker r) = ticker y) df = Some r"
      and yr: "y = normalize_row r"
      by auto
    have "cleanse_fundamentals [r] = [sanitize_row y]"
      using ne unfolding yr by (rule cleanse_fundamentals_single)
    then show ?thesis
      by (simp add: ticker_sanitize_row r)
  qed
  have firsts: "map (\<lambda>out. [out]) (cleanse_fundamentals df) =
       map (\<lambda>out. case find (\<lambda>r. normalize_ticker (ticker r) = ticker out) df of
                    None \<Rightarrow> []
                  | Some r \<Rightarrow> cleanse_fundamentals [r])
         (cleanse_fundamentals df)"
    unfolding once map_map o_def by (rule map_cong [OF refl]) (simp only: first)
  show ?thesis
    using len dist tick firsts by simp
qed







section \<open>Signs of the derived values\<close>










section \<open>The frame without columns\<close>


end
